theory Spec2Isabelle
  imports Main
begin

section \<open>The follow button (src/components/feature-specific/follow-button.tsx)\<close>

subsection \<open>Data\<close>

text \<open>
  The session object of \<open>useSession()\<close>: \<open>None\<close> is the null session, and
  \<open>user_id\<close> is what \<open>session?.user?.id\<close> reads (\<open>None\<close> for undefined).
\<close>

record session =
  user_id :: "string option"

text \<open>
  The props the component reads. The prop \<open>isFollowing\<close> is destructured under the name
  \<open>initialIsFollowing\<close>; \<open>onFollowChange\<close> is optional, so the model records whether
  it was supplied.
\<close>

record FollowButtonProps =
  userId :: string
  initialIsFollowing :: bool
  onFollowChange :: bool

text \<open>Everything the handler does besides setting state, in the order it does it.\<close>

datatype effect =
    ToastError string
  | RouterPush string
  | OnFollowChange bool
  | UnfollowMutate string
  | FollowMutate string
  | ConsoleError

text \<open>
  How the awaited \<open>mutateAsync\<close> promise settles: it resolves, rejects with an
  \<open>Error\<close> carrying a message, or rejects with some other value.
\<close>

datatype settled = Resolved | RejectedError string | RejectedOther

text \<open>
  The component's state: the \<open>useState\<close> cell \<open>isFollowing\<close>, the derived
  \<open>isLoading\<close> flag, and the log of effects.
\<close>

record FollowButton_state =
  isFollowing :: bool
  isLoading :: bool
  trace :: "effect list"

text \<open>An async handler either returns without awaiting or is suspended at its await.\<close>

datatype 'a async = Returned 'a | Awaiting 'a

text \<open>What the component renders: nothing, or a button.\<close>

record button =
  btn_disabled :: bool
  btn_outline :: bool
  btn_following :: bool

subsection \<open>Operations\<close>

text \<open>\<open>useState(initialIsFollowing)\<close> on the first render.\<close>

definition FollowButton_mount :: "FollowButtonProps \<Rightarrow> FollowButton_state" where
  "FollowButton_mount p =
     \<lparr>isFollowing = initialIsFollowing p, isLoading = False, trace = []\<rparr>"

text \<open>
  \<open>useEffect(() => setIsFollowing(initialIsFollowing), [initialIsFollowing])\<close> on a
  re-render from props \<open>old\<close> to props \<open>new\<close>: the effect runs when the dependency
  changed, and it does not look at \<open>isLoading\<close>.
\<close>

definition syncFromProps ::
  "FollowButtonProps \<Rightarrow> FollowButtonProps \<Rightarrow> FollowButton_state \<Rightarrow> FollowButton_state" where
  "syncFromProps old new st =
     (if initialIsFollowing new \<noteq> initialIsFollowing old
      then st\<lparr>isFollowing := initialIsFollowing new\<rparr>
      else st)"

text \<open>\<open>if (onFollowChange) onFollowChange(v)\<close>.\<close>

definition notify :: "FollowButtonProps \<Rightarrow> bool \<Rightarrow> effect list" where
  "notify p v = (if onFollowChange p then [OnFollowChange v] else [])"

text \<open>
  Modelled from the spec: the mutation hooks of use-user-profile-query are not part of
  the sources. The component's \<open>isLoading\<close> is
  \<open>followMutation.isPending || unfollowMutation.isPending\<close>, and \<open>isPending\<close> is
  taken to be true from the \<open>mutateAsync\<close> call until its promise settles (the spec's
  \<open>pending\<close> attribute of a follow edge, one mutation in flight per edge).
\<close>

definition mutation_started :: "FollowButton_state \<Rightarrow> FollowButton_state" where
  "mutation_started st = st\<lparr>isLoading := True\<rparr>"

definition mutation_settled :: "FollowButton_state \<Rightarrow> FollowButton_state" where
  "mutation_settled st = st\<lparr>isLoading := False\<rparr>"

text \<open>
  \<open>handleFollow\<close> up to its await: the sign-in guard, then the optimistic update, the
  callback and the call of the mutation.
\<close>

definition handleFollow_begin ::
  "FollowButtonProps \<Rightarrow> session option \<Rightarrow> FollowButton_state \<Rightarrow> FollowButton_state async" where
  "handleFollow_begin p sess st =
     (case sess of
        None \<Rightarrow>
          Returned (st\<lparr>trace := trace st @
            [ToastError ''Please sign in to follow users'', RouterPush ''/login'']\<rparr>)
      | Some _ \<Rightarrow>
          if isFollowing st
          then Awaiting (mutation_started (st\<lparr>isFollowing := False,
                 trace := trace st @ notify p False @ [UnfollowMutate (userId p)]\<rparr>))
          else Awaiting (mutation_started (st\<lparr>isFollowing := True,
                 trace := trace st @ notify p True @ [FollowMutate (userId p)]\<rparr>)))"

text \<open>
  The rest of \<open>handleFollow\<close> once the awaited promise has settled. The closure still
  holds the props \<open>p\<close> of the render in which the click happened; \<open>st\<close> is the state
  at the time of settlement.
\<close>

definition handleFollow_settle ::
  "FollowButtonProps \<Rightarrow> settled \<Rightarrow> FollowButton_state \<Rightarrow> FollowButton_state" where
  "handleFollow_settle p r st =
     (let st0 = mutation_settled st in
      case r of
        Resolved \<Rightarrow> st0
      | RejectedError m \<Rightarrow>
          st0\<lparr>isFollowing := initialIsFollowing p,
             trace := trace st0 @ [ConsoleError] @ notify p (initialIsFollowing p) @
                      [ToastError m]\<rparr>
      | RejectedOther \<Rightarrow>
          st0\<lparr>isFollowing := initialIsFollowing p,
             trace := trace st0 @ [ConsoleError] @ notify p (initialIsFollowing p) @
                      [ToastError ''An error occurred'']\<rparr>)"

text \<open>The whole handler, when nothing else happens between the call and the settlement.\<close>

definition handleFollow ::
  "FollowButtonProps \<Rightarrow> session option \<Rightarrow> settled \<Rightarrow> FollowButton_state \<Rightarrow> FollowButton_state" where
  "handleFollow p sess r st =
     (case handleFollow_begin p sess st of
        Returned st' \<Rightarrow> st'
      | Awaiting st' \<Rightarrow> handleFollow_settle p r st')"

text \<open>\<open>session?.user?.id\<close>.\<close>

definition session_user_id :: "session option \<Rightarrow> string option" where
  "session_user_id sess = (case sess of None \<Rightarrow> None | Some s \<Rightarrow> user_id s)"

text \<open>The render: \<open>null\<close> for the current user's own id, a button otherwise.\<close>

definition FollowButton_render ::
  "FollowButtonProps \<Rightarrow> session option \<Rightarrow> FollowButton_state \<Rightarrow> button option" where
  "FollowButton_render p sess st =
     (if session_user_id sess = Some (userId p) then None
      else Some \<lparr>btn_disabled = isLoading st, btn_outline = isFollowing st,
                 btn_following = isFollowing st\<rparr>)"

text \<open>
  A click on what was rendered: there is nothing to click when the render is \<open>null\<close>,
  a disabled button does not fire \<open>onClick\<close>, and otherwise \<open>handleFollow\<close> starts.
\<close>

definition FollowButton_click ::
  "FollowButtonProps \<Rightarrow> session option \<Rightarrow> FollowButton_state \<Rightarrow> FollowButton_state async" where
  "FollowButton_click p sess st =
     (case FollowButton_render p sess st of
        None \<Rightarrow> Returned st
      | Some b \<Rightarrow> if btn_disabled b then Returned st else handleFollow_begin p sess st)"

text \<open>The mutation calls among a list of effects.\<close>

fun is_mutation :: "effect \<Rightarrow> bool" where
  "is_mutation (UnfollowMutate _) = True"
| "is_mutation (FollowMutate _) = True"
| "is_mutation _ = False"

subsection \<open>Example inputs\<close>

definition alice :: session where
  "alice = \<lparr>user_id = Some ''alice''\<rparr>"

definition bob_not_followed :: FollowButtonProps where
  "bob_not_followed = \<lparr>userId = ''bob'', initialIsFollowing = False, onFollowChange = False\<rparr>"

definition bob_followed :: FollowButtonProps where
  "bob_followed = \<lparr>userId = ''bob'', initialIsFollowing = True, onFollowChange = False\<rparr>"

definition alice_self :: FollowButtonProps where
  "alice_self = \<lparr>userId = ''alice'', initialIsFollowing = False, onFollowChange = True\<rparr>"

text \<open>The state after one follow of bob that succeeded, the parent leaving the prop as it was.\<close>

definition after_follow :: FollowButton_state where
  "after_follow = handleFollow bob_not_followed (Some alice) Resolved (FollowButton_mount bob_not_followed)"

text \<open>A follow of bob in flight: the handler is suspended at its await.\<close>

definition follow_in_flight :: FollowButton_state where
  "follow_in_flight =
     (case handleFollow_begin bob_not_followed (Some alice) (FollowButton_mount bob_not_followed) of
        Returned st \<Rightarrow> st | Awaiting st \<Rightarrow> st)"

section \<open>The dashboard feed (the DashboardFeed component)\<close>

subsection \<open>Props and state\<close>

datatype view_mode = GridView | ListView

text \<open>
  The props the modelled code reads, after the defaults of the parameter list have
  been applied (\<open>itemsPerRow = 4\<close>, \<open>showSidecards = false\<close>, \<open>infiniteScroll = true\<close>,
  \<open>selectedType = null\<close> as \<open>None\<close>, ...). \<open>onViewModeChange\<close> is optional: the
  model records whether it was supplied.
\<close>

record DashboardFeedProps =
  initialTab :: string
  searchQuery :: string
  selectedTags :: "string list"
  selectedType :: "string option"
  infiniteScroll :: bool
  itemsPerRow :: int
  showSidecards :: bool
  defaultViewMode :: view_mode
  onViewModeChange :: bool

text \<open>The eight \<open>refetch\<close> functions the component takes from its query hooks.\<close>

datatype reload =
    ReloadTrendingInfinite | ReloadFollowingInfinite | ReloadAssetsInfinite
  | ReloadCreatorsInfinite
  | ReloadTrending | ReloadFollowing | ReloadAssets | ReloadCreators

text \<open>What a \<open>setTimeout\<close> callback of the component does when it fires.\<close>

datatype timer_action = SetIsRefreshing bool

text \<open>
  The \<open>useState\<close> cells of the component, and what it did to the outside: the
  \<open>onViewModeChange\<close> calls, the reload calls, and the timers it has scheduled
  (delay in milliseconds, callback) that have not fired yet.
\<close>

record DashboardFeed_state =
  activeTab :: string
  isRefreshing :: bool
  viewMode :: view_mode
  currentItemsPerRow :: int
  showCurrentSidecards :: bool
  viewModeCalls :: "view_mode list"
  reloadCalls :: "reload list"
  timers :: "(nat \<times> timer_action) list"

subsection \<open>View mode\<close>

text \<open>The effect \<open>useEffect(..., [defaultViewMode, itemsPerRow, showSidecards])\<close>.\<close>

definition initViewEffect :: "DashboardFeedProps \<Rightarrow> DashboardFeed_state \<Rightarrow> DashboardFeed_state" where
  "initViewEffect p st =
     (let st1 = st\<lparr>viewMode := defaultViewMode p\<rparr> in
      if defaultViewMode p = ListView \<and> showSidecards p
      then st1\<lparr>currentItemsPerRow := 1, showCurrentSidecards := True\<rparr>
      else if defaultViewMode p = GridView \<and> \<not> showSidecards p
      then st1\<lparr>currentItemsPerRow := itemsPerRow p, showCurrentSidecards := False\<rparr>
      else st1)"

text \<open>The first render: the initial values of the \<open>useState\<close> cells, then the effect.\<close>

definition DashboardFeed_mount :: "DashboardFeedProps \<Rightarrow> DashboardFeed_state" where
  "DashboardFeed_mount p =
     initViewEffect p
       \<lparr>activeTab = initialTab p, isRefreshing = False, viewMode = defaultViewMode p,
        currentItemsPerRow = itemsPerRow p, showCurrentSidecards = showSidecards p,
        viewModeCalls = [], reloadCalls = [], timers = []\<rparr>"

definition handleTabChange :: "string \<Rightarrow> DashboardFeed_state \<Rightarrow> DashboardFeed_state" where
  "handleTabChange tab st = st\<lparr>activeTab := tab\<rparr>"

definition handleViewModeChange ::
  "DashboardFeedProps \<Rightarrow> view_mode \<Rightarrow> DashboardFeed_state \<Rightarrow> DashboardFeed_state" where
  "handleViewModeChange p mode st =
     (let st1 = st\<lparr>viewMode := mode\<rparr>;
          st2 = (if showSidecards p
                 then (if mode = ListView
                       then st1\<lparr>currentItemsPerRow := 1, showCurrentSidecards := True\<rparr>
                       else st1\<lparr>currentItemsPerRow := 4, showCurrentSidecards := False\<rparr>)
                 else st1)
      in if onViewModeChange p then st2\<lparr>viewModeCalls := viewModeCalls st2 @ [mode]\<rparr> else st2)"

subsection \<open>The options of the eight query hooks\<close>

text \<open>
  The options object of \<open>useInfiniteAssetsQuery\<close> and \<open>useAssetsQuery\<close>, and the one of
  \<open>useInfiniteCreatorsQuery\<close> and \<open>useCreatorsQuery\<close>. \<open>None\<close> is \<open>undefined\<close>. The
  creators options are written without a \<open>type\<close> and without a \<open>limit\<close> property.
\<close>

record AssetsQueryOptions =
  aq_sort :: string
  aq_limit :: nat
  aq_search :: "string option"
  aq_tag :: "string option"
  aq_type :: "string option"
  aq_following :: "bool option"
  aq_enabled :: bool

record CreatorsQueryOptions =
  cq_search :: "string option"
  cq_tag :: "string option"
  cq_sort :: string
  cq_enabled :: bool

text \<open>\<open>selectedType || undefined\<close>: null and the empty string both give undefined.\<close>

definition or_undefined :: "string option \<Rightarrow> string option" where
  "or_undefined t = (case t of None \<Rightarrow> None | Some s \<Rightarrow> if s = [] then None else Some s)"

text \<open>
  The options written at each hook call, in the order of the source. \<open>lim\<close> stands for
  the constant \<open>PAGINATION.DEFAULT_LIMIT\<close>, \<open>tab\<close> for the state \<open>activeTab\<close>.
\<close>

definition trendingInfiniteOptions :: "nat \<Rightarrow> DashboardFeedProps \<Rightarrow> string \<Rightarrow> AssetsQueryOptions" where
  "trendingInfiniteOptions lim p tab =
     \<lparr>aq_sort = ''popular'', aq_limit = lim,
      aq_search = (if tab = ''trending'' then Some (searchQuery p) else None),
      aq_tag = (if tab = ''trending'' \<and> length (selectedTags p) > 0
                then Some (selectedTags p ! 0) else None),
      aq_type = (if tab = ''trending'' then or_undefined (selectedType p) else None),
      aq_following = None,
      aq_enabled = (tab = ''trending'' \<and> infiniteScroll p)\<rparr>"

definition followingInfiniteOptions ::
  "nat \<Rightarrow> DashboardFeedProps \<Rightarrow> session option \<Rightarrow> string \<Rightarrow> AssetsQueryOptions" where
  "followingInfiniteOptions lim p sess tab =
     \<lparr>aq_sort = ''latest'', aq_limit = lim,
      aq_search = (if tab = ''following'' then Some (searchQuery p) else None),
      aq_tag = (if tab = ''following'' \<and> length (selectedTags p) > 0
                then Some (selectedTags p ! 0) else None),
      aq_type = (if tab = ''following'' then or_undefined (selectedType p) else None),
      aq_following = Some True,
      aq_enabled = (tab = ''following'' \<and> sess \<noteq> None \<and> infiniteScroll p)\<rparr>"

definition assetsInfiniteOptions :: "nat \<Rightarrow> DashboardFeedProps \<Rightarrow> string \<Rightarrow> AssetsQueryOptions" where
  "assetsInfiniteOptions lim p tab =
     \<lparr>aq_sort = ''latest'', aq_limit = lim,
      aq_search = (if tab = ''assets'' then Some (searchQuery p) else None),
      aq_tag = (if tab = ''assets'' \<and> length (selectedTags p) > 0
                then Some (selectedTags p ! 0) else None),
      aq_type = (if tab = ''assets'' then or_undefined (selectedType p) else None),
      aq_following = None,
      aq_enabled = (tab = ''assets'' \<and> infiniteScroll p)\<rparr>"

definition creatorsInfiniteOptions :: "DashboardFeedProps \<Rightarrow> string \<Rightarrow> CreatorsQueryOptions" where
  "creatorsInfiniteOptions p tab =
     \<lparr>cq_search = (if tab = ''creators'' then Some (searchQuery p) else None),
      cq_tag = (if tab = ''creators'' \<and> length (selectedTags p) > 0
                then Some (selectedTags p ! 0) else None),
      cq_sort = ''popular'',
      cq_enabled = (tab = ''creators'' \<and> infiniteScroll p)\<rparr>"

definition trendingOptions :: "nat \<Rightarrow> DashboardFeedProps \<Rightarrow> string \<Rightarrow> AssetsQueryOptions" where
  "trendingOptions lim p tab =
     \<lparr>aq_sort = ''popular'', aq_limit = lim,
      aq_search = (if tab = ''trending'' then Some (searchQuery p) else None),
      aq_tag = (if tab = ''trending'' \<and> length (selectedTags p) > 0
                then Some (selectedTags p ! 0) else None),
      aq_type = (if tab = ''trending'' then or_undefined (selectedType p) else None),
      aq_following = None,
      aq_enabled = (tab = ''trending'' \<and> \<not> infiniteScroll p)\<rparr>"

definition followingOptions ::
  "nat \<Rightarrow> DashboardFeedProps \<Rightarrow> session option \<Rightarrow> string \<Rightarrow> AssetsQueryOptions" where
  "followingOptions lim p sess tab =
     \<lparr>aq_sort = ''latest'', aq_limit = lim,
      aq_search = (if tab = ''following'' then Some (searchQuery p) else None),
      aq_tag = (if tab = ''following'' \<and> length (selectedTags p) > 0
                then Some (selectedTags p ! 0) else None),
      aq_type = (if tab = ''following'' then or_undefined (selectedType p) else None),
      aq_following = Some True,
      aq_enabled = (tab = ''following'' \<and> sess \<noteq> None \<and> \<not> infiniteScroll p)\<rparr>"

definition assetsOptions :: "nat \<Rightarrow> DashboardFeedProps \<Rightarrow> string \<Rightarrow> AssetsQueryOptions" where
  "assetsOptions lim p tab =
     \<lparr>aq_sort = ''latest'', aq_limit = lim,
      aq_search = (if tab = ''assets'' then Some (searchQuery p) else None),
      aq_tag = (if tab = ''assets'' \<and> length (selectedTags p) > 0
                then Some (selectedTags p ! 0) else None),
      aq_type = (if tab = ''assets'' then or_undefined (selectedType p) else None),
      aq_following = None,
      aq_enabled = (tab = ''assets'' \<and> \<not> infiniteScroll p)\<rparr>"

definition creatorsOptions :: "DashboardFeedProps \<Rightarrow> string \<Rightarrow> CreatorsQueryOptions" where
  "creatorsOptions p tab =
     \<lparr>cq_search = (if tab = ''creators'' then Some (searchQuery p) else None),
      cq_tag = (if tab = ''creators'' \<and> length (selectedTags p) > 0
                then Some (selectedTags p ! 0) else None),
      cq_sort = ''popular'',
      cq_enabled = (tab = ''creators'' \<and> \<not> infiniteScroll p)\<rparr>"

text \<open>The four sources and the tab id each one is bound to.\<close>

datatype FeedSource = Trending | Following | Assets | Creators

fun tab_id :: "FeedSource \<Rightarrow> string" where
  "tab_id Trending = ''trending''"
| "tab_id Following = ''following''"
| "tab_id Assets = ''assets''"
| "tab_id Creators = ''creators''"

text \<open>
  Either kind of options object, with what reading its \<open>search\<close>, \<open>tag\<close> and
  \<open>type\<close> properties gives: a property the object does not have reads as undefined.
\<close>

datatype query_options = AssetsQ AssetsQueryOptions | CreatorsQ CreatorsQueryOptions

fun q_search :: "query_options \<Rightarrow> string option" where
  "q_search (AssetsQ opts) = aq_search opts"
| "q_search (CreatorsQ opts) = cq_search opts"

fun q_tag :: "query_options \<Rightarrow> string option" where
  "q_tag (AssetsQ opts) = aq_tag opts"
| "q_tag (CreatorsQ opts) = cq_tag opts"

fun q_type :: "query_options \<Rightarrow> string option" where
  "q_type (AssetsQ opts) = aq_type opts"
| "q_type (CreatorsQ opts) = None"

text \<open>All eight hook calls of one render, each with the source it queries.\<close>

definition hook_calls ::
  "nat \<Rightarrow> DashboardFeedProps \<Rightarrow> session option \<Rightarrow> string \<Rightarrow> (FeedSource \<times> query_options) list" where
  "hook_calls lim p sess tab =
     [(Trending, AssetsQ (trendingInfiniteOptions lim p tab)),
      (Following, AssetsQ (followingInfiniteOptions lim p sess tab)),
      (Assets, AssetsQ (assetsInfiniteOptions lim p tab)),
      (Creators, CreatorsQ (creatorsInfiniteOptions p tab)),
      (Trending, AssetsQ (trendingOptions lim p tab)),
      (Following, AssetsQ (followingOptions lim p sess tab)),
      (Assets, AssetsQ (assetsOptions lim p tab)),
      (Creators, CreatorsQ (creatorsOptions p tab))]"

subsection \<open>Flattening the pages of the infinite queries\<close>

text \<open>
  The types \<open>Asset\<close> and \<open>UserProfile\<close> are imported by the component; it reads their
  \<open>id\<close> as the React key of a card. A page of an assets query carries \<open>assets\<close>, a
  page of the creators query carries \<open>users\<close>, and the data of an infinite query is
  the list of pages fetched so far (\<open>None\<close> while \<open>data\<close> is undefined).
\<close>

record Asset =
  asset_id :: string

record UserProfile =
  profile_id :: string

record AssetsPage =
  assets :: "Asset list"

record CreatorsPage =
  users :: "UserProfile list"

record 'p InfiniteData =
  pages :: "'p list"

text \<open>\<open>Array.prototype.flatMap\<close> with a callback that returns an array.\<close>

fun flatMap :: "('a \<Rightarrow> 'b list) \<Rightarrow> 'a list \<Rightarrow> 'b list" where
  "flatMap f [] = []"
| "flatMap f (x # xs) = f x @ flatMap f xs"

definition trendingInfiniteAssets :: "AssetsPage InfiniteData option \<Rightarrow> Asset list" where
  "trendingInfiniteAssets trendingInfiniteData =
     (case trendingInfiniteData of None \<Rightarrow> [] | Some d \<Rightarrow> flatMap assets (pages d))"

definition followingInfiniteAssets :: "AssetsPage InfiniteData option \<Rightarrow> Asset list" where
  "followingInfiniteAssets followingInfiniteData =
     (case followingInfiniteData of None \<Rightarrow> [] | Some d \<Rightarrow> flatMap assets (pages d))"

definition assetsInfiniteAssets :: "AssetsPage InfiniteData option \<Rightarrow> Asset list" where
  "assetsInfiniteAssets assetsInfiniteData =
     (case assetsInfiniteData of None \<Rightarrow> [] | Some d \<Rightarrow> flatMap assets (pages d))"

definition creatorsInfiniteItems :: "CreatorsPage InfiniteData option \<Rightarrow> UserProfile list" where
  "creatorsInfiniteItems creatorsInfiniteData =
     (case creatorsInfiniteData of None \<Rightarrow> [] | Some d \<Rightarrow> flatMap users (pages d))"

text \<open>
  The cursor contract on the item identities of a sequence of pages: no identity occurs
  twice in a page, and no identity occurs in two pages.
\<close>

fun pages_duplicate_free :: "'k list list \<Rightarrow> bool" where
  "pages_duplicate_free [] = True"
| "pages_duplicate_free (pg # pgs) =
     (distinct pg \<and> (\<forall>q \<in> set pgs. set pg \<inter> set q = {}) \<and> pages_duplicate_free pgs)"

subsection \<open>Fetching the next page\<close>

text \<open>
  What the query hooks report in one render. \<open>hasNextPage r Trending\<close> is the source's
  \<open>trendingHasNextPage\<close>, \<open>isFetchingNextPage r Assets\<close> its
  \<open>isAssetsInfiniteFetchingNextPage\<close>, \<open>hasMore r Creators\<close> its \<open>creatorsHasMore\<close>,
  \<open>isLoadingMore r Following\<close> its \<open>isFollowingLoadingMore\<close>, and so on: the first two
  come from the infinite hooks, the last two from the paged ones.
\<close>

record QueryResults =
  hasNextPage :: "FeedSource \<Rightarrow> bool"
  isFetchingNextPage :: "FeedSource \<Rightarrow> bool"
  hasMore :: "FeedSource \<Rightarrow> bool"
  isLoadingMore :: "FeedSource \<Rightarrow> bool"

text \<open>
  A call of a hook's fetch function: \<open>FetchNextPage Trending\<close> is
  \<open>fetchNextTrendingPage()\<close>, \<open>LoadMore Trending\<close> is \<open>loadMoreTrending()\<close>.
\<close>

datatype fetch_call = FetchNextPage FeedSource | LoadMore FeedSource

text \<open>
  The object \<open>getTabData\<close> returns: \<open>td_source\<close> says whose \<open>data\<close>, \<open>isLoading\<close>
  and \<open>error\<close> it carries, \<open>td_creator\<close> whether \<open>type: 'creator'\<close> is set.
\<close>

record TabData =
  td_source :: FeedSource
  td_hasMore :: bool
  td_isLoadingMore :: bool
  td_loadMore :: fetch_call
  td_creator :: bool

definition infiniteTabData :: "QueryResults \<Rightarrow> FeedSource \<Rightarrow> bool \<Rightarrow> TabData" where
  "infiniteTabData r s c =
     \<lparr>td_source = s, td_hasMore = hasNextPage r s, td_isLoadingMore = isFetchingNextPage r s,
      td_loadMore = FetchNextPage s, td_creator = c\<rparr>"

definition pagedTabData :: "QueryResults \<Rightarrow> FeedSource \<Rightarrow> bool \<Rightarrow> TabData" where
  "pagedTabData r s c =
     \<lparr>td_source = s, td_hasMore = hasMore r s, td_isLoadingMore = isLoadingMore r s,
      td_loadMore = LoadMore s, td_creator = c\<rparr>"

definition getTabData :: "bool \<Rightarrow> QueryResults \<Rightarrow> string \<Rightarrow> TabData" where
  "getTabData infScroll r tab =
     (if infScroll then
        (if tab = ''trending'' then infiniteTabData r Trending False
         else if tab = ''following'' then infiniteTabData r Following False
         else if tab = ''assets'' then infiniteTabData r Assets False
         else if tab = ''creators'' then infiniteTabData r Creators True
         else infiniteTabData r Trending False)
      else
        (if tab = ''trending'' then pagedTabData r Trending False
         else if tab = ''following'' then pagedTabData r Following False
         else if tab = ''assets'' then pagedTabData r Assets False
         else if tab = ''creators'' then pagedTabData r Creators True
         else pagedTabData r Trending False))"

text \<open>The calls \<open>fetchMoreForCurrentTab\<close> makes; every case ends with \<open>break\<close>.\<close>

definition fetchMoreForCurrentTab :: "QueryResults \<Rightarrow> string \<Rightarrow> fetch_call list" where
  "fetchMoreForCurrentTab r tab =
     (if tab = ''trending'' then
        (if hasNextPage r Trending \<and> \<not> isFetchingNextPage r Trending
         then [FetchNextPage Trending] else [])
      else if tab = ''following'' then
        (if hasNextPage r Following \<and> \<not> isFetchingNextPage r Following
         then [FetchNextPage Following] else [])
      else if tab = ''assets'' then
        (if hasNextPage r Assets \<and> \<not> isFetchingNextPage r Assets
         then [FetchNextPage Assets] else [])
      else if tab = ''creators'' then
        (if hasNextPage r Creators \<and> \<not> isFetchingNextPage r Creators
         then [FetchNextPage Creators] else [])
      else [])"

text \<open>The callback handed to the intersection observer.\<close>

definition fetchNextPage :: "bool \<Rightarrow> QueryResults \<Rightarrow> string \<Rightarrow> fetch_call list" where
  "fetchNextPage infScroll r tab =
     (let td = getTabData infScroll r tab in
      if td_hasMore td \<and> \<not> td_isLoadingMore td then fetchMoreForCurrentTab r tab else [])"

subsection \<open>A feed in infinite mode over time\<close>

text \<open>
  Modelled from the spec: the hooks \<open>useInfiniteAssetsQuery\<close> and
  \<open>useInfiniteCreatorsQuery\<close> are not part of the sources. Per source they keep the pages
  fetched so far and whether there is a next page; \<open>sq_inflight\<close> counts the next-page
  requests that were issued and have not settled, and the flag \<open>isFetchingNextPage\<close>
  they report is true while a next page is in flight. A call of the hook's
  \<open>fetchNextPage\<close> issues one request; a response appends its page.
\<close>

record 'p SourceQuery =
  sq_pages :: "'p list"
  sq_hasNextPage :: bool
  sq_inflight :: nat

record 'p Feed =
  f_activeTab :: string
  f_query :: "FeedSource \<Rightarrow> 'p SourceQuery"

text \<open>
  Modelled from the spec: what the hooks report for a feed in infinite mode. The paged
  hooks are disabled there, and their flags are not read.
\<close>

definition results_of :: "'p Feed \<Rightarrow> QueryResults" where
  "results_of w =
     \<lparr>hasNextPage = (\<lambda>s. sq_hasNextPage (f_query w s)),
      isFetchingNextPage = (\<lambda>s. 0 < sq_inflight (f_query w s)),
      hasMore = (\<lambda>s. False),
      isLoadingMore = (\<lambda>s. False)\<rparr>"

text \<open>
  Modelled from the spec: a call of an infinite hook's \<open>fetchNextPage\<close> puts one more
  request in flight; the paged hooks are not modelled.
\<close>

fun issue :: "fetch_call \<Rightarrow> 'p Feed \<Rightarrow> 'p Feed" where
  "issue (FetchNextPage s) w =
     w\<lparr>f_query := (f_query w)(s := (f_query w s)\<lparr>sq_inflight := Suc (sq_inflight (f_query w s))\<rparr>)\<rparr>"
| "issue (LoadMore s) w = w"

text \<open>
  Modelled from the spec: what can happen to a mounted feed: the sentinel enters the viewport and the observer
  calls the component's \<open>fetchNextPage\<close>; a page request of a source settles with a
  page and the new \<open>hasNextPage\<close>, or fails; the user selects a tab.
\<close>

datatype 'p feed_event =
    SentinelIntersects
  | PageArrives FeedSource 'p bool
  | RequestFails FeedSource
  | TabSelected string

fun feed_step :: "'p feed_event \<Rightarrow> 'p Feed \<Rightarrow> 'p Feed" where
  "feed_step SentinelIntersects w =
     fold issue (fetchNextPage True (results_of w) (f_activeTab w)) w"
| "feed_step (PageArrives s pg hasNext) w =
     (if sq_inflight (f_query w s) = 0 then w
      else w\<lparr>f_query := (f_query w)(s :=
             \<lparr>sq_pages = sq_pages (f_query w s) @ [pg], sq_hasNextPage = hasNext,
              sq_inflight = sq_inflight (f_query w s) - 1\<rparr>)\<rparr>)"
| "feed_step (RequestFails s) w =
     (if sq_inflight (f_query w s) = 0 then w
      else w\<lparr>f_query := (f_query w)(s :=
             (f_query w s)\<lparr>sq_inflight := sq_inflight (f_query w s) - 1\<rparr>)\<rparr>)"
| "feed_step (TabSelected tab) w = w\<lparr>f_activeTab := tab\<rparr>"

definition feed_run :: "'p feed_event list \<Rightarrow> 'p Feed \<Rightarrow> 'p Feed" where
  "feed_run evs w = fold feed_step evs w"

text \<open>A feed right after its first pages were loaded: nothing is in flight.\<close>

definition feed_start :: "string \<Rightarrow> (FeedSource \<Rightarrow> 'p list) \<Rightarrow> (FeedSource \<Rightarrow> bool) \<Rightarrow> 'p Feed" where
  "feed_start tab firstPages hasNext =
     \<lparr>f_activeTab = tab,
      f_query = (\<lambda>s. \<lparr>sq_pages = firstPages s, sq_hasNextPage = hasNext s, sq_inflight = 0\<rparr>)\<rparr>"

subsection \<open>Refreshing the feed\<close>

text \<open>
  How an awaited reload settles. The reload functions belong to the query hooks, so the
  model takes the outcome of each as a parameter.
\<close>

datatype promise = Resolves | Rejects | NeverSettles

text \<open>How the \<open>try\<close> block ends: normally, by an exception, or never (stuck at an await).\<close>

datatype completion = Completed | Threw | Suspended

text \<open>
  One clause of a \<open>switch\<close>: its label (\<open>None\<close> for \<open>default\<close>), the reload its body
  awaits, and whether the body ends with \<open>break\<close>.
\<close>

type_synonym switch_clause = "string option \<times> reload \<times> bool"

text \<open>The \<open>switch (activeTab)\<close> of \<open>refreshFeed\<close>, clause by clause.\<close>

definition refreshFeed_switch :: "bool \<Rightarrow> switch_clause list" where
  "refreshFeed_switch infScroll =
     [(Some ''trending'', if infScroll then ReloadTrendingInfinite else ReloadTrending, True),
      (Some ''following'', if infScroll then ReloadFollowingInfinite else ReloadFollowing, True),
      (Some ''assets'', if infScroll then ReloadAssetsInfinite else ReloadAssets, True),
      (Some ''creators'', if infScroll then ReloadCreatorsInfinite else ReloadCreators, False),
      (None, if infScroll then ReloadTrendingInfinite else ReloadTrending, False)]"

text \<open>
  Where a \<open>switch\<close> on value \<open>v\<close> enters: at the first clause whose label is \<open>v\<close>, and
  at the \<open>default\<close> clause when there is none.
\<close>

definition switch_entry :: "string \<Rightarrow> switch_clause list \<Rightarrow> switch_clause list" where
  "switch_entry v cs =
     (case dropWhile (\<lambda>c. fst c \<noteq> Some v) cs of
        [] \<Rightarrow> dropWhile (\<lambda>c. fst c \<noteq> None) cs
      | c # rest \<Rightarrow> c # rest)"

text \<open>
  Running the clauses from the entry on: each body awaits its reload; a rejection leaves
  the \<open>switch\<close> as an exception, a \<open>break\<close> leaves it normally, and without a \<open>break\<close>
  control falls through into the next clause. The result is the reloads called, in
  order, and how the block ended.
\<close>

fun run_clauses :: "(reload \<Rightarrow> promise) \<Rightarrow> switch_clause list \<Rightarrow> reload list \<times> completion" where
  "run_clauses oc [] = ([], Completed)"
| "run_clauses oc ((l, r, brk) # cs) =
     (case oc r of
        Rejects \<Rightarrow> ([r], Threw)
      | NeverSettles \<Rightarrow> ([r], Suspended)
      | Resolves \<Rightarrow>
          if brk then ([r], Completed)
          else (case run_clauses oc cs of (rs, c) \<Rightarrow> (r # rs, c)))"

text \<open>
  \<open>refreshFeed\<close>: set the flag, run the \<open>switch\<close> inside \<open>try\<close>, and in \<open>finally\<close>
  (reached when the block completed or threw) schedule the reset of the flag 500 ms
  later. The result is the new state and how the call ended.
\<close>

definition refreshFeed ::
  "DashboardFeedProps \<Rightarrow> (reload \<Rightarrow> promise) \<Rightarrow> DashboardFeed_state \<Rightarrow> DashboardFeed_state \<times> completion" where
  "refreshFeed p oc st =
     (let st1 = st\<lparr>isRefreshing := True\<rparr> in
      case run_clauses oc (switch_entry (activeTab st1) (refreshFeed_switch (infiniteScroll p))) of
        (rs, c) \<Rightarrow>
          let st2 = st1\<lparr>reloadCalls := reloadCalls st1 @ rs\<rparr> in
          if c = Suspended then (st2, c)
          else (st2\<lparr>timers := timers st2 @ [(500, SetIsRefreshing False)]\<rparr>, c))"

text \<open>A timer fires: its callback runs. All scheduled timers fire in the order scheduled.\<close>

fun fire :: "nat \<times> timer_action \<Rightarrow> DashboardFeed_state \<Rightarrow> DashboardFeed_state" where
  "fire (d, SetIsRefreshing b) st = st\<lparr>isRefreshing := b\<rparr>"

definition run_timers :: "DashboardFeed_state \<Rightarrow> DashboardFeed_state" where
  "run_timers st = fold fire (timers st) (st\<lparr>timers := []\<rparr>)"

subsection \<open>Example inputs for the feed\<close>

text \<open>A home feed with side cards, configured for three items per row.\<close>

definition home_props :: DashboardFeedProps where
  "home_props =
     \<lparr>initialTab = ''trending'', searchQuery = ''sword'', selectedTags = [''pixel'', ''lowpoly''],
      selectedType = Some ''MODEL'', infiniteScroll = True, itemsPerRow = 3,
      showSidecards = True, defaultViewMode = GridView, onViewModeChange = False\<rparr>"

text \<open>The same feed without the side cards.\<close>

definition explore_props :: DashboardFeedProps where
  "explore_props = home_props\<lparr>initialTab := ''assets'', showSidecards := False\<rparr>"

definition creators_tab :: DashboardFeed_state where
  "creators_tab = handleTabChange ''creators'' (DashboardFeed_mount home_props)"

definition two_pages :: "AssetsPage InfiniteData" where
  "two_pages = \<lparr>pages = [\<lparr>assets = [\<lparr>asset_id = ''a1''\<rparr>, \<lparr>asset_id = ''a2''\<rparr>]\<rparr>,
                          \<lparr>assets = [\<lparr>asset_id = ''a3''\<rparr>]\<rparr>]\<rparr>"

definition two_creator_pages :: "CreatorsPage InfiniteData" where
  "two_creator_pages = \<lparr>pages = [\<lparr>users = [\<lparr>profile_id = ''u1''\<rparr>]\<rparr>,
                          \<lparr>users = [\<lparr>profile_id = ''u2''\<rparr>, \<lparr>profile_id = ''u3''\<rparr>]\<rparr>]\<rparr>"

text \<open>Every source has a next page, and the trending source is fetching one.\<close>

definition busy_trending :: QueryResults where
  "busy_trending =
     \<lparr>hasNextPage = (\<lambda>s. True), isFetchingNextPage = (\<lambda>s. s = Trending),
      hasMore = (\<lambda>s. False), isLoadingMore = (\<lambda>s. False)\<rparr>"

text \<open>A feed on the trending tab with one page per source and more to come.\<close>

definition fresh_feed :: "nat Feed" where
  "fresh_feed = feed_start ''trending'' (\<lambda>s. [0]) (\<lambda>s. True)"

section \<open>Properties of the follow button\<close>

lemma handleFollow_signed_in:
  "handleFollow p (Some s) r st =
     handleFollow_settle p r
       (mutation_started (st\<lparr>isFollowing := \<not> isFollowing st,
          trace := trace st @ notify p (\<not> isFollowing st) @
            [if isFollowing st then UnfollowMutate (userId p) else FollowMutate (userId p)]\<rparr>))"
  by (simp add: handleFollow_def handleFollow_begin_def)

text \<open>
  Where the local state agrees with the prop, a failed mutation puts the state back to
  what it was before the click, and the last effect is the error toast.
\<close>

lemma rollback_when_in_sync:
  assumes "isFollowing st = initialIsFollowing p" and "r \<noteq> Resolved"
  shows "isFollowing (handleFollow p (Some s) r st) = isFollowing st"
    and "\<exists>m. last (trace (handleFollow p (Some s) r st)) = ToastError m"
  using assms
  by (cases r; simp add: handleFollow_signed_in handleFollow_settle_def mutation_settled_def
        mutation_started_def)+

text \<open>
  C1. After a failed mutation the state should be the one held just before the
  optimistic flip, also after earlier successful toggles. Here bob was followed
  successfully (state \<open>True\<close>, prop still \<open>False\<close>); the unfollow that follows is
  rejected, and the state ends at \<open>False\<close>, the optimistic value, not at \<open>True\<close>.
\<close>

theorem C1_rollback_uses_prop:
  "isFollowing after_follow = True \<and>
   isFollowing (handleFollow bob_not_followed (Some alice) (RejectedError ''network'') after_follow) = False \<and>
   trace (handleFollow bob_not_followed (Some alice) (RejectedError ''network'') after_follow) =
     [FollowMutate ''bob'', UnfollowMutate ''bob'', ConsoleError, ToastError ''network'']"
  by (simp add: after_follow_def handleFollow_signed_in handleFollow_settle_def
      mutation_settled_def mutation_started_def FollowButton_mount_def bob_not_followed_def
      notify_def)

text \<open>
  C4. When the target user's id is the id of the signed-in user, the component renders
  nothing, and a click on what was rendered starts no handler: state and effects stay
  as they were.
\<close>

theorem C4_no_control_for_self:
  "user_id s = Some (userId p) \<Longrightarrow>
     FollowButton_render p (Some s) st = None \<and> FollowButton_click p (Some s) st = Returned st"
  by (simp add: FollowButton_render_def FollowButton_click_def session_user_id_def)

theorem C4_no_control_for_self_witness:
  "user_id alice = Some (userId alice_self) \<and>
   FollowButton_render alice_self (Some alice) (FollowButton_mount alice_self) = None \<and>
   FollowButton_click alice_self (Some alice) (FollowButton_mount alice_self)
     = Returned (FollowButton_mount alice_self)"
proof -
  have h: "user_id alice = Some (userId alice_self)"
    by (simp add: alice_def alice_self_def)
  show ?thesis
    using h C4_no_control_for_self [OF h, of "FollowButton_mount alice_self"] by simp
qed

text \<open>
  C5. With a null session the handler returns before any mutation: it adds exactly the
  sign-in toast and the redirect to the login page to the effects, none of them a
  mutation call, and leaves \<open>isFollowing\<close> (and \<open>isLoading\<close>) as they were, however the
  mutation would have settled.
\<close>

theorem C5_unauthenticated_no_mutation:
  "handleFollow p None r st =
     st\<lparr>trace := trace st @ [ToastError ''Please sign in to follow users'', RouterPush ''/login'']\<rparr> \<and>
   isFollowing (handleFollow p None r st) = isFollowing st \<and>
   isLoading (handleFollow p None r st) = isLoading st \<and>
   filter is_mutation (trace (handleFollow p None r st)) = filter is_mutation (trace st)"
  by (simp add: handleFollow_def handleFollow_begin_def)

text \<open>
  C3. A re-render with a changed \<open>isFollowing\<close> prop sets the local state to the new
  prop value; the effect has no other condition, so it does this whether or not a
  mutation is in flight, and a render with an unchanged prop leaves the state alone.
  \<open>isLoading\<close> and the effects are never touched.
\<close>

theorem C3_sync_on_prop_change:
  "isFollowing (syncFromProps old new st) =
     (if initialIsFollowing new \<noteq> initialIsFollowing old then initialIsFollowing new
      else isFollowing st) \<and>
   isLoading (syncFromProps old new st) = isLoading st \<and>
   trace (syncFromProps old new st) = trace st"
  by (simp add: syncFromProps_def)

text \<open>
  The effect is not held back while a mutation is pending: while the follow of
  bob is in flight (optimistic state \<open>True\<close>), the parent re-renders with the prop
  \<open>True\<close> and then with the prop \<open>False\<close> again; the mutation is still pending and the
  optimistic state has been overwritten with \<open>False\<close>.
\<close>

theorem C3_sync_while_pending_counterexample:
  "isLoading follow_in_flight \<and> isFollowing follow_in_flight \<and>
   isLoading (syncFromProps bob_followed bob_not_followed
      (syncFromProps bob_not_followed bob_followed follow_in_flight)) \<and>
   \<not> isFollowing (syncFromProps bob_followed bob_not_followed
      (syncFromProps bob_not_followed bob_followed follow_in_flight))"
  by (simp add: follow_in_flight_def handleFollow_begin_def mutation_started_def
      FollowButton_mount_def syncFromProps_def bob_followed_def bob_not_followed_def)

section \<open>Properties of the dashboard feed\<close>

subsection \<open>View mode\<close>

text \<open>
  C2. With \<open>showSidecards\<close>, switching to the list view sets the items per row to 1 and
  shows the side cards, and switching to the grid view sets the items per row to the
  constant 4 and hides the side cards. Without \<open>showSidecards\<close> a switch changes the
  view mode and nothing else. In both cases the callback, when supplied, is called with
  the new mode.
\<close>

theorem C2_view_mode_coupling:
  "(showSidecards p \<longrightarrow>
      handleViewModeChange p ListView st =
        (if onViewModeChange p
         then st\<lparr>viewMode := ListView, currentItemsPerRow := 1, showCurrentSidecards := True,
                viewModeCalls := viewModeCalls st @ [ListView]\<rparr>
         else st\<lparr>viewMode := ListView, currentItemsPerRow := 1, showCurrentSidecards := True\<rparr>) \<and>
      handleViewModeChange p GridView st =
        (if onViewModeChange p
         then st\<lparr>viewMode := GridView, currentItemsPerRow := 4, showCurrentSidecards := False,
                viewModeCalls := viewModeCalls st @ [GridView]\<rparr>
         else st\<lparr>viewMode := GridView, currentItemsPerRow := 4, showCurrentSidecards := False\<rparr>)) \<and>
   (\<not> showSidecards p \<longrightarrow>
      handleViewModeChange p mode st =
        (if onViewModeChange p
         then st\<lparr>viewMode := mode, viewModeCalls := viewModeCalls st @ [mode]\<rparr>
         else st\<lparr>viewMode := mode\<rparr>))"
  by (simp add: handleViewModeChange_def Let_def)

theorem C2_view_mode_coupling_witness:
  "showSidecards home_props \<and>
   currentItemsPerRow (handleViewModeChange home_props ListView (DashboardFeed_mount home_props)) = 1 \<and>
   showCurrentSidecards (handleViewModeChange home_props ListView (DashboardFeed_mount home_props)) \<and>
   currentItemsPerRow (handleViewModeChange home_props GridView (DashboardFeed_mount home_props)) = 4 \<and>
   \<not> showCurrentSidecards (handleViewModeChange home_props GridView (DashboardFeed_mount home_props)) \<and>
   \<not> showSidecards explore_props \<and>
   currentItemsPerRow (handleViewModeChange explore_props ListView (DashboardFeed_mount explore_props)) = 3 \<and>
   viewMode (handleViewModeChange explore_props ListView (DashboardFeed_mount explore_props)) = ListView"
proof -
  have h: "showSidecards home_props" "\<not> onViewModeChange home_props"
    "\<not> showSidecards explore_props" "\<not> onViewModeChange explore_props"
    by (simp_all add: home_props_def explore_props_def)
  have e: "currentItemsPerRow (DashboardFeed_mount explore_props) = 3"
    by (simp add: DashboardFeed_mount_def initViewEffect_def explore_props_def home_props_def)
  show ?thesis
    using h e
      C2_view_mode_coupling [of home_props "DashboardFeed_mount home_props"]
      C2_view_mode_coupling [of explore_props "DashboardFeed_mount explore_props" ListView]
    by simp
qed

text \<open>
  The grid view does not restore the configured value. A feed configured with three
  items per row shows three per row when mounted,
  one in the list view, and four after the switch back to the grid view.
\<close>

theorem C2_grid_restores_counterexample:
  "showSidecards home_props \<and> itemsPerRow home_props = 3 \<and>
   currentItemsPerRow (DashboardFeed_mount home_props) = 3 \<and>
   currentItemsPerRow (handleViewModeChange home_props ListView (DashboardFeed_mount home_props)) = 1 \<and>
   currentItemsPerRow (handleViewModeChange home_props GridView
      (handleViewModeChange home_props ListView (DashboardFeed_mount home_props))) = 4"
  by (simp add: home_props_def DashboardFeed_mount_def initViewEffect_def
      handleViewModeChange_def Let_def)

subsection \<open>Filter binding\<close>

text \<open>
  C9. Of the eight hook calls, those of a source whose tab is not the active one get
  undefined for search, tag and type. Those of the active source get the search query,
  the first selected tag (undefined when none is selected) and, for the three assets
  sources, the selected type (undefined when it is null or empty); the creators queries
  take no type.
\<close>

theorem C9_filter_binding:
  "(s, q) \<in> set (hook_calls lim p sess tab) \<Longrightarrow>
     (tab \<noteq> tab_id s \<longrightarrow> q_search q = None \<and> q_tag q = None \<and> q_type q = None) \<and>
     (tab = tab_id s \<longrightarrow>
        q_search q = Some (searchQuery p) \<and>
        q_tag q = (case selectedTags p of [] \<Rightarrow> None | t # ts \<Rightarrow> Some t) \<and>
        q_type q = (if s = Creators then None
                    else case selectedType p of None \<Rightarrow> None
                         | Some t \<Rightarrow> if t = [] then None else Some t))"
  by (cases "selectedTags p")
     (auto simp: hook_calls_def trendingInfiniteOptions_def followingInfiniteOptions_def
      assetsInfiniteOptions_def creatorsInfiniteOptions_def trendingOptions_def
      followingOptions_def assetsOptions_def creatorsOptions_def or_undefined_def
      split: option.splits)

theorem C9_filter_binding_witness:
  "(Trending, AssetsQ (trendingInfiniteOptions 20 home_props ''trending''))
     \<in> set (hook_calls 20 home_props None ''trending'') \<and>
   q_search (AssetsQ (trendingInfiniteOptions 20 home_props ''trending'')) = Some ''sword'' \<and>
   q_tag (AssetsQ (trendingInfiniteOptions 20 home_props ''trending'')) = Some ''pixel'' \<and>
   q_type (AssetsQ (trendingInfiniteOptions 20 home_props ''trending'')) = Some ''MODEL'' \<and>
   (Assets, AssetsQ (assetsOptions 20 home_props ''trending''))
     \<in> set (hook_calls 20 home_props None ''trending'') \<and>
   q_search (AssetsQ (assetsOptions 20 home_props ''trending'')) = None \<and>
   q_tag (AssetsQ (assetsOptions 20 home_props ''trending'')) = None \<and>
   q_type (AssetsQ (assetsOptions 20 home_props ''trending'')) = None"
proof -
  have m1: "(Trending, AssetsQ (trendingInfiniteOptions 20 home_props ''trending''))
     \<in> set (hook_calls 20 home_props None ''trending'')"
    and m2: "(Assets, AssetsQ (assetsOptions 20 home_props ''trending''))
     \<in> set (hook_calls 20 home_props None ''trending'')"
    by (simp_all add: hook_calls_def)
  have p: "searchQuery home_props = ''sword''" "selectedTags home_props = [''pixel'', ''lowpoly'']"
    "selectedType home_props = Some ''MODEL''"
    by (simp_all add: home_props_def)
  show ?thesis
    using m1 m2 p C9_filter_binding [OF m1] C9_filter_binding [OF m2] by simp
qed

text \<open>
  The selected type does not reach the active source on the creators tab: a type is
  selected, and none of the eight queries receives it.
\<close>

theorem C9_creators_type_counterexample:
  "selectedType home_props = Some ''MODEL'' \<and>
   map (\<lambda>c. q_type (snd c)) (hook_calls 20 home_props (Some alice) ''creators'') =
     [None, None, None, None, None, None, None, None]"
  by (simp add: hook_calls_def trendingInfiniteOptions_def followingInfiniteOptions_def
      assetsInfiniteOptions_def creatorsInfiniteOptions_def trendingOptions_def
      followingOptions_def assetsOptions_def creatorsOptions_def home_props_def)

subsection \<open>Flattened pages\<close>

lemma flatMap_concat: "flatMap f xs = concat (map f xs)"
  by (induction xs) simp_all

lemma pages_duplicate_free_iff: "pages_duplicate_free pgs \<longleftrightarrow> distinct (concat pgs)"
  by (induction pgs) auto

text \<open>
  C8. The item list of each infinite source is the concatenation of its pages' item
  lists, in page order and in the order within each page; when the identities on the
  pages are free of duplicates (within a page and across pages), so are the identities
  of the flattened list.
\<close>

theorem C8_flattened_pages:
  "trendingInfiniteAssets (Some d) = concat (map assets (pages d)) \<and>
   followingInfiniteAssets (Some d) = concat (map assets (pages d)) \<and>
   assetsInfiniteAssets (Some d) = concat (map assets (pages d)) \<and>
   creatorsInfiniteItems (Some c) = concat (map users (pages c)) \<and>
   (pages_duplicate_free (map (\<lambda>pg. map asset_id (assets pg)) (pages d)) \<longrightarrow>
      distinct (map asset_id (trendingInfiniteAssets (Some d))) \<and>
      distinct (map asset_id (followingInfiniteAssets (Some d))) \<and>
      distinct (map asset_id (assetsInfiniteAssets (Some d)))) \<and>
   (pages_duplicate_free (map (\<lambda>pg. map profile_id (users pg)) (pages c)) \<longrightarrow>
      distinct (map profile_id (creatorsInfiniteItems (Some c))))"
  by (simp add: trendingInfiniteAssets_def followingInfiniteAssets_def assetsInfiniteAssets_def
      creatorsInfiniteItems_def flatMap_concat pages_duplicate_free_iff map_concat comp_def)

theorem C8_flattened_pages_witness:
  "pages_duplicate_free (map (\<lambda>pg. map asset_id (assets pg)) (pages two_pages)) \<and>
   pages_duplicate_free (map (\<lambda>pg. map profile_id (users pg)) (pages two_creator_pages)) \<and>
   map asset_id (trendingInfiniteAssets (Some two_pages)) = [''a1'', ''a2'', ''a3''] \<and>
   distinct (map asset_id (trendingInfiniteAssets (Some two_pages))) \<and>
   map profile_id (creatorsInfiniteItems (Some two_creator_pages)) = [''u1'', ''u2'', ''u3''] \<and>
   distinct (map profile_id (creatorsInfiniteItems (Some two_creator_pages)))"
  using C8_flattened_pages [of two_pages two_creator_pages]
  by (simp add: two_pages_def two_creator_pages_def)

subsection \<open>The next-page trigger\<close>

lemma fetchMore_shape:
  "fetchMoreForCurrentTab r tab = [] \<or>
   (\<exists>s. fetchMoreForCurrentTab r tab = [FetchNextPage s] \<and> tab = tab_id s \<and>
        hasNextPage r s \<and> \<not> isFetchingNextPage r s)"
  by (simp add: fetchMoreForCurrentTab_def)

lemma fetchNextPage_shape:
  "fetchNextPage infScroll r tab = [] \<or>
   (\<exists>s. fetchNextPage infScroll r tab = [FetchNextPage s] \<and> tab = tab_id s \<and>
        hasNextPage r s \<and> \<not> isFetchingNextPage r s)"
  using fetchMore_shape [of r tab] by (auto simp: fetchNextPage_def Let_def)

lemma tab_id_inj: "tab_id s = tab_id s' \<Longrightarrow> s = s'"
  by (cases s; cases s'; simp)

text \<open>One event keeps the number of requests in flight per source at one or less.\<close>

lemma feed_step_inflight:
  assumes "\<forall>s. sq_inflight (f_query w s) \<le> 1"
  shows "\<forall>s. sq_inflight (f_query (feed_step ev w) s) \<le> 1"
proof (cases ev)
  case SentinelIntersects
  from fetchNextPage_shape [of True "results_of w" "f_activeTab w"]
  show ?thesis
  proof
    assume "fetchNextPage True (results_of w) (f_activeTab w) = []"
    with SentinelIntersects assms show ?thesis by simp
  next
    assume "\<exists>s. fetchNextPage True (results_of w) (f_activeTab w) = [FetchNextPage s] \<and>
        f_activeTab w = tab_id s \<and> hasNextPage (results_of w) s \<and>
        \<not> isFetchingNextPage (results_of w) s"
    then obtain s where s: "fetchNextPage True (results_of w) (f_activeTab w) = [FetchNextPage s]"
      and idle: "\<not> isFetchingNextPage (results_of w) s" by blast
    from idle have "sq_inflight (f_query w s) = 0" by (simp add: results_of_def)
    with SentinelIntersects s assms show ?thesis by simp
  qed
next
  case (PageArrives s pg hasNext)
  with assms show ?thesis by (auto simp: le_diff_conv)
next
  case (RequestFails s)
  with assms show ?thesis by (auto simp: le_diff_conv)
next
  case (TabSelected tab)
  with assms show ?thesis by simp
qed

lemma feed_run_inflight:
  "\<forall>s. sq_inflight (f_query w s) \<le> 1 \<Longrightarrow> \<forall>s. sq_inflight (f_query (feed_run evs w) s) \<le> 1"
  unfolding feed_run_def
proof (induction evs arbitrary: w)
  case Nil
  then show ?case by simp
next
  case (Cons ev evs)
  from Cons.prems have "\<forall>s. sq_inflight (f_query (feed_step ev w) s) \<le> 1"
    by (rule feed_step_inflight)
  then show ?case using Cons.IH by simp
qed

text \<open>
  On the fresh feed the first trigger issues the request for the second trending page,
  a second trigger before the response changes nothing, and the response appends the
  page.
\<close>

lemma second_trigger_noop:
  "sq_inflight (f_query (feed_run [SentinelIntersects] fresh_feed) Trending) = 1 \<and>
   feed_run [SentinelIntersects, SentinelIntersects] fresh_feed
     = feed_run [SentinelIntersects] fresh_feed \<and>
   sq_pages (f_query (feed_run [SentinelIntersects, SentinelIntersects, PageArrives Trending 1 True]
      fresh_feed) Trending) = [0, 1]"
  by (simp add: feed_run_def fresh_feed_def feed_start_def fetchNextPage_def getTabData_def
      infiniteTabData_def fetchMoreForCurrentTab_def results_of_def Let_def)

text \<open>
  C6. The trigger \<open>fetchNextPage\<close> issues no request for a source whose
  \<open>isFetchingNextPage\<close> is true or whose \<open>hasNextPage\<close> is false, and no request at
  all when that source is the active one or when the \<open>isLoadingMore\<close>/\<open>hasMore\<close> pair
  selected by \<open>getTabData\<close> says so; it never calls a paged \<open>loadMore\<close> and issues at
  most one request per invocation. Hence a request for a source is issued only while
  none is in flight for it, and over any sequence of triggers, responses, failures and
  tab changes of a feed in infinite mode at most one next-page request per source is in
  flight.
\<close>

theorem C6_next_page_gate:
  "(\<forall>s. isFetchingNextPage r s \<or> \<not> hasNextPage r s \<longrightarrow>
        FetchNextPage s \<notin> set (fetchNextPage infScroll r tab)) \<and>
   (\<forall>s. tab = tab_id s \<and> (isFetchingNextPage r s \<or> \<not> hasNextPage r s) \<longrightarrow>
        fetchNextPage infScroll r tab = []) \<and>
   (td_isLoadingMore (getTabData infScroll r tab) \<or> \<not> td_hasMore (getTabData infScroll r tab) \<longrightarrow>
        fetchNextPage infScroll r tab = []) \<and>
   (\<forall>s. LoadMore s \<notin> set (fetchNextPage infScroll r tab)) \<and>
   length (fetchNextPage infScroll r tab) \<le> 1 \<and>
   (\<forall>s. FetchNextPage s \<in> set (fetchNextPage True (results_of w) (f_activeTab w)) \<longrightarrow>
        sq_inflight (f_query w s) = 0) \<and>
   (\<forall>s. sq_inflight (f_query (feed_run evs (feed_start tab0 firstPages hasNext)) s) \<le> 1)"
proof (intro conjI)
  show "\<forall>s. isFetchingNextPage r s \<or> \<not> hasNextPage r s \<longrightarrow>
        FetchNextPage s \<notin> set (fetchNextPage infScroll r tab)"
    using fetchNextPage_shape [of infScroll r tab] by auto
  show "\<forall>s. tab = tab_id s \<and> (isFetchingNextPage r s \<or> \<not> hasNextPage r s) \<longrightarrow>
        fetchNextPage infScroll r tab = []"
    using fetchNextPage_shape [of infScroll r tab] by (auto dest: tab_id_inj)
  show "td_isLoadingMore (getTabData infScroll r tab) \<or> \<not> td_hasMore (getTabData infScroll r tab) \<longrightarrow>
        fetchNextPage infScroll r tab = []"
    by (auto simp: fetchNextPage_def Let_def)
  show "\<forall>s. LoadMore s \<notin> set (fetchNextPage infScroll r tab)"
    using fetchNextPage_shape [of infScroll r tab] by auto
  show "length (fetchNextPage infScroll r tab) \<le> 1"
    using fetchNextPage_shape [of infScroll r tab] by auto
  show "\<forall>s. FetchNextPage s \<in> set (fetchNextPage True (results_of w) (f_activeTab w)) \<longrightarrow>
        sq_inflight (f_query w s) = 0"
    using fetchNextPage_shape [of True "results_of w" "f_activeTab w"]
    by (auto simp: results_of_def)
  show "\<forall>s. sq_inflight (f_query (feed_run evs (feed_start tab0 firstPages hasNext)) s) \<le> 1"
    by (rule feed_run_inflight) (simp add: feed_start_def)
qed

theorem C6_next_page_gate_witness:
  "isFetchingNextPage busy_trending Trending \<and>
   FetchNextPage Trending \<notin> set (fetchNextPage True busy_trending ''creators'') \<and>
   fetchNextPage True busy_trending ''trending'' = [] \<and>
   sq_inflight (f_query (feed_run
      [SentinelIntersects, SentinelIntersects, TabSelected ''assets'', SentinelIntersects,
       PageArrives Trending 1 True, SentinelIntersects] fresh_feed) Assets) \<le> 1"
proof -
  have h: "isFetchingNextPage busy_trending Trending" "''trending'' = tab_id Trending"
    by (simp_all add: busy_trending_def)
  show ?thesis
    using h
      C6_next_page_gate [where r = busy_trending and infScroll = True and tab = "''creators''"]
      C6_next_page_gate [where r = busy_trending and infScroll = True and tab = "''trending''"
        and evs = "[SentinelIntersects, SentinelIntersects, TabSelected ''assets'',
                    SentinelIntersects, PageArrives Trending 1 True, SentinelIntersects]"
        and ?tab0.0 = "''trending''" and firstPages = "\<lambda>s. [0::nat]" and hasNext = "\<lambda>s. True"]
    unfolding fresh_feed_def by blast
qed

subsection \<open>Refreshing\<close>

lemma run_clauses_settles:
  "\<forall>r. oc r \<noteq> NeverSettles \<Longrightarrow> snd (run_clauses oc cs) \<noteq> Suspended"
  by (induction cs) (auto split: promise.splits prod.splits if_splits)

text \<open>
  C7. On the creators tab \<open>refreshFeed\<close> calls the creators reload of the current mode
  and, once that has resolved, falls through into the default clause and calls the
  trending reload of the current mode as well. (When the creators reload rejects or
  never settles, control does not get that far.)
\<close>

theorem C7_creators_fall_through:
  assumes "activeTab st = ''creators''"
  shows "reloadCalls (fst (refreshFeed p oc st)) =
     reloadCalls st @
       (if infiniteScroll p
        then ReloadCreatorsInfinite #
               (if oc ReloadCreatorsInfinite = Resolves then [ReloadTrendingInfinite] else [])
        else ReloadCreators #
               (if oc ReloadCreators = Resolves then [ReloadTrending] else []))"
  using assms
  by (simp add: refreshFeed_def refreshFeed_switch_def switch_entry_def split: promise.splits)

theorem C7_creators_fall_through_witness:
  "activeTab creators_tab = ''creators'' \<and>
   reloadCalls (fst (refreshFeed home_props (\<lambda>r. Resolves) creators_tab))
     = [ReloadCreatorsInfinite, ReloadTrendingInfinite]"
proof -
  have h: "activeTab creators_tab = ''creators''"
    by (simp add: creators_tab_def handleTabChange_def)
  have c: "reloadCalls creators_tab = []" "infiniteScroll home_props"
    by (simp_all add: creators_tab_def handleTabChange_def DashboardFeed_mount_def
        initViewEffect_def home_props_def)
  show ?thesis
    using h c C7_creators_fall_through [OF h, of home_props "\<lambda>r. Resolves"] by simp
qed

text \<open>Every other tab, named or unknown, gets exactly one reload.\<close>

lemma refresh_other_tabs:
  assumes "activeTab st \<noteq> ''creators''"
  shows "length (reloadCalls (fst (refreshFeed p oc st))) = Suc (length (reloadCalls st))"
  using assms
  by (cases "activeTab st = ''trending''"; cases "activeTab st = ''following''";
      cases "activeTab st = ''assets''")
     (simp_all add: refreshFeed_def refreshFeed_switch_def switch_entry_def Let_def
        split: promise.splits)

text \<open>
  C10. When every reload that is awaited settles, by resolving or by throwing,
  \<open>refreshFeed\<close> reaches its \<open>finally\<close> block: the flag is set, exactly one timer of
  500 ms that resets it has been added, and once the timers have fired the flag is
  false.
\<close>

theorem C10_refresh_resets_flag:
  assumes "\<forall>r. oc r \<noteq> NeverSettles"
  shows "snd (refreshFeed p oc st) \<noteq> Suspended \<and>
         isRefreshing (fst (refreshFeed p oc st)) = True \<and>
         timers (fst (refreshFeed p oc st)) = timers st @ [(500, SetIsRefreshing False)] \<and>
         isRefreshing (run_timers (fst (refreshFeed p oc st))) = False"
proof -
  let ?cs = "switch_entry (activeTab st) (refreshFeed_switch (infiniteScroll p))"
  obtain rs c where rc: "run_clauses oc ?cs = (rs, c)" by (cases "run_clauses oc ?cs")
  with run_clauses_settles [OF assms, of ?cs] have c: "c \<noteq> Suspended" by simp
  from rc c show ?thesis
    by (simp add: refreshFeed_def run_timers_def)
qed

theorem C10_refresh_resets_flag_witness:
  "(\<forall>r. (\<lambda>r. Rejects) r \<noteq> NeverSettles) \<and>
   snd (refreshFeed home_props (\<lambda>r. Rejects) creators_tab) = Threw \<and>
   isRefreshing (fst (refreshFeed home_props (\<lambda>r. Rejects) creators_tab)) \<and>
   timers (fst (refreshFeed home_props (\<lambda>r. Rejects) creators_tab)) = [(500, SetIsRefreshing False)] \<and>
   \<not> isRefreshing (run_timers (fst (refreshFeed home_props (\<lambda>r. Rejects) creators_tab)))"
proof -
  have h: "\<forall>r. (\<lambda>r. Rejects) r \<noteq> NeverSettles" by simp
  have t: "timers creators_tab = []"
    by (simp add: creators_tab_def handleTabChange_def DashboardFeed_mount_def
        initViewEffect_def home_props_def)
  have e: "snd (refreshFeed home_props (\<lambda>r. Rejects) creators_tab) = Threw"
    by (simp add: refreshFeed_def refreshFeed_switch_def switch_entry_def creators_tab_def
        handleTabChange_def home_props_def)
  show ?thesis
    using h t e C10_refresh_resets_flag [OF h, of home_props creators_tab] by simp
qed

end
